theory Spec2Isabelle
  imports Complex_Main
begin

section \<open>PowerCore: duty-cycle driven feedrate scaling (klippy/extras/powercore.py)\<close>

text \<open>
  The module reads a duty cycle from a PWM capture object, feeds it to a PID controller
  and scales the speed of every move handed to \<open>check_move\<close>.

  Python floats are idealised as the reals: sums, products and comparisons are exact,
  and NaN and the infinities do not occur. Objects are records, and a method that
  mutates \<open>self\<close> takes the record and returns the updated one. The clock read by the
  controller (\<open>reactor.monotonic\<close>) is an argument \<open>now\<close> of every function that
  reaches it. The printer, reactor and toolhead lookups and the registration of the
  event handler and of the three commands carry no data the functions below read,
  and are left out.
\<close>

type_synonym pyfloat = real

subsection \<open>The builtin \<open>round(x, ndigits)\<close>\<close>

text \<open>
  Python 3 rounds to the nearest multiple of \<open>10 ^ (- ndigits)\<close>, a tie going to
  the even neighbour.
\<close>

definition round_half_even :: "pyfloat \<Rightarrow> int" where
  "round_half_even x =
     (let f = \<lfloor>x\<rfloor>; r = x - of_int f
      in if r < 1 / 2 then f
         else if 1 / 2 < r then f + 1
         else if even f then f else f + 1)"

definition py_round :: "pyfloat \<Rightarrow> nat \<Rightarrow> pyfloat" where
  "py_round x ndigits = of_int (round_half_even (x * 10 ^ ndigits)) / 10 ^ ndigits"

subsection \<open>Configuration access\<close>

text \<open>
  A configuration section maps option names to values. A value is kept as the kind of
  text it is: a number with a fractional part, a whole number, or any other text.
\<close>

datatype cfg_value = CfgText string | CfgFloat pyfloat | CfgInt int

type_synonym ConfigWrapper = "string \<rightharpoonup> cfg_value"

datatype config_error =
    MustBeSpecified string
  | UnableToParse string
  | MustHaveMinimum string pyfloat
  | MustHaveMaximum string pyfloat
  | MustBeAbove string pyfloat

text \<open>
  Modelled from the spec: \<open>config.get\<close>, \<open>config.getfloat\<close> and \<open>config.getint\<close>
  of klippy/configfile.py, which is not among the sources. A missing option yields the
  default when there is one and is a fatal configuration error otherwise; a value
  outside the bounds given by the caller (\<open>minval\<close>, \<open>maxval\<close>: inclusive,
  \<open>above\<close>: strict) is a fatal configuration error.
\<close>

definition get :: "ConfigWrapper \<Rightarrow> string \<Rightarrow> config_error + cfg_value" where
  "get config option =
     (case config option of
        None \<Rightarrow> Inl (MustBeSpecified option)
      | Some v \<Rightarrow> Inr v)"

definition check_bounds ::
  "string \<Rightarrow> pyfloat \<Rightarrow> pyfloat option \<Rightarrow> pyfloat option \<Rightarrow> pyfloat option
     \<Rightarrow> config_error + pyfloat" where
  "check_bounds option v minval maxval aboveval =
     (if (case minval of None \<Rightarrow> False | Some m \<Rightarrow> v < m)
        then Inl (MustHaveMinimum option (the minval))
      else if (case maxval of None \<Rightarrow> False | Some m \<Rightarrow> m < v)
        then Inl (MustHaveMaximum option (the maxval))
      else if (case aboveval of None \<Rightarrow> False | Some a \<Rightarrow> v \<le> a)
        then Inl (MustBeAbove option (the aboveval))
      else Inr v)"

definition getfloat ::
  "ConfigWrapper \<Rightarrow> string \<Rightarrow> pyfloat \<Rightarrow> pyfloat option \<Rightarrow> pyfloat option
     \<Rightarrow> pyfloat option \<Rightarrow> config_error + pyfloat" where
  "getfloat config option dflt minval maxval aboveval =
     (case config option of
        None \<Rightarrow> Inr dflt
      | Some (CfgText s) \<Rightarrow> Inl (UnableToParse option)
      | Some (CfgFloat v) \<Rightarrow> check_bounds option v minval maxval aboveval
      | Some (CfgInt i) \<Rightarrow> check_bounds option (of_int i) minval maxval aboveval)"

definition getint ::
  "ConfigWrapper \<Rightarrow> string \<Rightarrow> int \<Rightarrow> int option \<Rightarrow> config_error + int" where
  "getint config option dflt minval =
     (case config option of
        None \<Rightarrow> Inr dflt
      | Some (CfgText s) \<Rightarrow> Inl (UnableToParse option)
      | Some (CfgFloat v) \<Rightarrow> Inl (UnableToParse option)
      | Some (CfgInt i) \<Rightarrow>
          (if (case minval of None \<Rightarrow> False | Some m \<Rightarrow> i < m)
             then Inl (MustHaveMinimum option (of_int (the minval)))
           else Inr i))"

subsection \<open>The PID controller\<close>

text \<open>
  The controller is \<open>simple_pid.PID\<close>, an imported package that is not among the
  sources. Its state and its two operations follow section 3 (ControllerState) and
  section 4.2 of the specification.
\<close>

record PID =
  Kp :: pyfloat
  Ki :: pyfloat
  Kd :: pyfloat
  setpoint :: pyfloat
  output_limits :: "pyfloat \<times> pyfloat"
  integral :: pyfloat
  previous_error :: "pyfloat option"
  previous_time :: "pyfloat option"

text \<open>
  Modelled from the spec: the constructor of the controller (simple_pid is not among
  the sources). Gains, setpoint and limits are stored; the accumulator is empty and
  there is no previous call.
\<close>

definition PID_init ::
  "pyfloat \<Rightarrow> pyfloat \<Rightarrow> pyfloat \<Rightarrow> pyfloat \<Rightarrow> pyfloat \<times> pyfloat \<Rightarrow> PID" where
  "PID_init kp ki kd sp limits =
     \<lparr> Kp = kp, Ki = ki, Kd = kd, setpoint = sp, output_limits = limits,
       integral = 0, previous_error = None, previous_time = None \<rparr>"

text \<open>
  Modelled from the spec: clamping of a value to \<open>[low, high]\<close> (simple_pid is not
  among the sources).
\<close>

definition clamp :: "pyfloat \<Rightarrow> pyfloat \<times> pyfloat \<Rightarrow> pyfloat" where
  "clamp v limits =
     (if snd limits < v then snd limits
      else if v < fst limits then fst limits
      else v)"

text \<open>
  Modelled from the spec: one controller step, section 4.2 (simple_pid is not among the
  sources). The error is \<open>setpoint - measurement\<close>. When there is no previous call, or
  the clock did not advance, the step adds nothing to the integral and its derivative is
  zero; otherwise the integral grows by \<open>error * dt\<close> and the derivative is the
  error difference over \<open>dt\<close>. The raw output \<open>Kp * error + Ki * integral + Kd *
  derivative\<close> is clamped to the output limits; when clamping changed it, the
  accumulator is frozen at its value before the step. The step stores the error and the
  time.
\<close>

definition step :: "PID \<Rightarrow> pyfloat \<Rightarrow> pyfloat \<Rightarrow> pyfloat \<times> PID" where
  "step c measurement now =
     (let error = setpoint c - measurement;
          warm = (case (previous_time c, previous_error c) of
                    (Some t, Some e) \<Rightarrow> if 0 < now - t then Some (now - t, e) else None
                  | _ \<Rightarrow> None);
          integral' = (case warm of
                         None \<Rightarrow> integral c
                       | Some (dt, e) \<Rightarrow> integral c + error * dt);
          derivative = (case warm of
                          None \<Rightarrow> 0
                        | Some (dt, e) \<Rightarrow> (error - e) / dt);
          raw = Kp c * error + Ki c * integral' + Kd c * derivative;
          output = clamp raw (output_limits c)
      in (output,
          c\<lparr> integral := (if output = raw then integral' else integral c),
             previous_error := Some error,
             previous_time := Some now \<rparr>))"

text \<open>
  Modelled from the spec: \<open>reset()\<close> clears the integral accumulator and the
  previous error and time, and leaves gains, setpoint and limits as they are
  (simple_pid is not among the sources).
\<close>

definition reset :: "PID \<Rightarrow> PID" where
  "reset c = c\<lparr> integral := 0, previous_error := None, previous_time := None \<rparr>"

subsection \<open>The PWM capture object and its reader\<close>

text \<open>
  Modelled from the spec: \<open>pwm_in.PWMIn\<close> (klippy/extras/pwm_in.py is not among the
  sources) holds the most recently published duty-cycle estimate, which
  \<open>get_duty_cycle\<close> returns; the estimate it holds when created is an argument of the
  constructor here.
\<close>

record PWMIn =
  pin :: cfg_value
  report_interval :: pyfloat
  pwm_frequency :: pyfloat
  additional_timeout_ticks :: int
  duty_cycle :: pyfloat

definition PWMIn_init ::
  "cfg_value \<Rightarrow> pyfloat \<Rightarrow> pyfloat \<Rightarrow> int \<Rightarrow> pyfloat \<Rightarrow> PWMIn" where
  "PWMIn_init p interval frequency ticks estimate =
     \<lparr> pin = p, report_interval = interval, pwm_frequency = frequency,
       additional_timeout_ticks = ticks, duty_cycle = estimate \<rparr>"

definition get_duty_cycle :: "PWMIn \<Rightarrow> pyfloat" where
  "get_duty_cycle counter = duty_cycle counter"

record PowerCorePWMReader =
  pwm_counter :: PWMIn

definition PowerCorePWMReader_init ::
  "ConfigWrapper \<Rightarrow> pyfloat \<Rightarrow> config_error + PowerCorePWMReader" where
  "PowerCorePWMReader_init config estimate =
     (case get config ''alrt_pin'' of Inl e \<Rightarrow> Inl e | Inr p \<Rightarrow>
      case getfloat config ''alrt_pwm_frequency'' 100 None None (Some 0) of
        Inl e \<Rightarrow> Inl e | Inr frequency \<Rightarrow>
      case getfloat config ''alrt_report_interval'' (1 / 10) None None (Some (1 / 10)) of
        Inl e \<Rightarrow> Inl e | Inr interval \<Rightarrow>
      case getint config ''additional_timeout_ticks'' 0 (Some 0) of
        Inl e \<Rightarrow> Inl e | Inr ticks \<Rightarrow>
      Inr \<lparr> pwm_counter = PWMIn_init p interval frequency ticks estimate \<rparr>)"

definition get_current_duty_cycle :: "PowerCorePWMReader \<Rightarrow> pyfloat" where
  "get_current_duty_cycle reader = py_round (get_duty_cycle (pwm_counter reader)) 3"

subsection \<open>Moves, responses and log lines\<close>

text \<open>
  Modelled from the spec: a \<open>Move\<close> of the toolhead (klippy/toolhead.py is not among
  the sources) has a squared peak cruising velocity and a \<open>set_speed(velocity,
  acceleration)\<close> operation; the model keeps the arguments of every call, in order.
\<close>

record Move =
  max_cruise_v2 :: pyfloat
  set_speed_calls :: "(pyfloat \<times> pyfloat) list"

definition set_speed :: "Move \<Rightarrow> pyfloat \<Rightarrow> pyfloat \<Rightarrow> Move" where
  "set_speed move speed accel = move\<lparr> set_speed_calls := set_speed_calls move @ [(speed, accel)] \<rparr>"

text \<open>The texts given to \<open>respond_info\<close>, with the values they carry.\<close>

datatype response =
    DutyCycleInfo pyfloat
  | EnabledInfo
  | DisabledInfo
  | ScaleInfo pyfloat pyfloat pyfloat

text \<open>
  The lines given to \<open>logging.info\<close> by \<open>scale_move\<close>. The second line prints
  \<open>math.sqrt(move.max_cruise_v2)\<close>; it is kept as the number under the root, which
  determines the text and keeps the model computable.
\<close>

datatype log_line =
    LogScaleMove
  | LogOrigFeedrateSqrt pyfloat
  | LogNewFeedrate pyfloat
  | LogDutyCycle pyfloat
  | LogPidOutput pyfloat

datatype py_error = ValueError

subsection \<open>PowerCore\<close>

record PowerCore =
  pwm_reader :: PowerCorePWMReader
  gcode :: "response list"
  target_duty_cycle :: pyfloat
  min_feedrate :: pyfloat
  max_feedrate :: pyfloat
  adjustment_accel :: pyfloat
  scaling_enabled :: bool
  pid_controller :: PID

text \<open>
  \<open>__init__\<close>: the reader is built first, then the four bounds are read and checked
  one by one, then the controller is built from the three gains.
\<close>

definition PowerCore_init :: "ConfigWrapper \<Rightarrow> pyfloat \<Rightarrow> config_error + PowerCore" where
  "PowerCore_init config estimate =
     (case PowerCorePWMReader_init config estimate of Inl e \<Rightarrow> Inl e | Inr reader \<Rightarrow>
      case getfloat config ''target_duty_cycle'' (3 / 4) (Some 0) (Some 1) None of
        Inl e \<Rightarrow> Inl e | Inr target \<Rightarrow>
      case getfloat config ''min_feedrate'' (1 / 10) (Some 0) None None of
        Inl e \<Rightarrow> Inl e | Inr minf \<Rightarrow>
      case getfloat config ''max_feedrate'' 64 (Some 0) None None of
        Inl e \<Rightarrow> Inl e | Inr maxf \<Rightarrow>
      case getfloat config ''powercore_adjustment_accel'' 500 None None (Some 0) of
        Inl e \<Rightarrow> Inl e | Inr accel \<Rightarrow>
      case getfloat config ''kp'' 1 None None None of Inl e \<Rightarrow> Inl e | Inr kp \<Rightarrow>
      case getfloat config ''ki'' 0 None None None of Inl e \<Rightarrow> Inl e | Inr ki \<Rightarrow>
      case getfloat config ''kd'' 0 None None None of Inl e \<Rightarrow> Inl e | Inr kd \<Rightarrow>
      Inr \<lparr> pwm_reader = reader, gcode = [], target_duty_cycle = target,
            min_feedrate = minf, max_feedrate = maxf, adjustment_accel = accel,
            scaling_enabled = True,
            pid_controller = PID_init kp ki kd target (0, 1) \<rparr>)"

definition respond_info :: "PowerCore \<Rightarrow> response \<Rightarrow> PowerCore" where
  "respond_info self msg = self\<lparr> gcode := gcode self @ [msg] \<rparr>"

definition cmd_get_duty_cycle :: "PowerCore \<Rightarrow> PowerCore" where
  "cmd_get_duty_cycle self =
     (let duty = get_current_duty_cycle (pwm_reader self)
      in respond_info self (DutyCycleInfo duty))"

definition enable_scaling :: "PowerCore \<Rightarrow> PowerCore" where
  "enable_scaling self =
     (let self1 = self\<lparr> pid_controller := reset (pid_controller self) \<rparr>
      in self1\<lparr> scaling_enabled := True \<rparr>)"

definition disable_scaling :: "PowerCore \<Rightarrow> PowerCore" where
  "disable_scaling self = self\<lparr> scaling_enabled := False \<rparr>"

definition cmd_enable_scaling :: "PowerCore \<Rightarrow> PowerCore" where
  "cmd_enable_scaling self = respond_info (enable_scaling self) EnabledInfo"

definition cmd_disable_scaling :: "PowerCore \<Rightarrow> PowerCore" where
  "cmd_disable_scaling self = respond_info (disable_scaling self) DisabledInfo"

text \<open>
  \<open>scale_move\<close> and \<open>check_move\<close> work on the governor, the lines logged so far and
  the move. They return \<open>None\<close> when the call returns and \<open>Some\<close> the exception when
  it raises, together with the three objects as the call leaves them.
  \<open>math.sqrt\<close> raises \<open>ValueError\<close> on a negative argument; by then the controller
  has taken its step and the first line has been logged.
\<close>

type_synonym machine = "PowerCore \<times> log_line list \<times> Move"

definition scale_move ::
  "pyfloat \<Rightarrow> PowerCore \<Rightarrow> log_line list \<Rightarrow> Move \<Rightarrow> py_error option \<times> machine" where
  "scale_move now self logging move =
     (let logging1 = logging @ [LogScaleMove];
          current_duty_cycle = get_current_duty_cycle (pwm_reader self);
          (output, pid') = step (pid_controller self) current_duty_cycle now;
          self1 = self\<lparr> pid_controller := pid' \<rparr>;
          feedrate = min_feedrate self1
                       + output * (max_feedrate self1 - min_feedrate self1)
      in if max_cruise_v2 move < 0 then (Some ValueError, self1, logging1, move)
         else
           let logging2 = logging1 @ [LogOrigFeedrateSqrt (max_cruise_v2 move),
                                      LogNewFeedrate feedrate,
                                      LogDutyCycle current_duty_cycle,
                                      LogPidOutput output];
               move1 = set_speed move (feedrate * 60) (adjustment_accel self1);
               self2 = respond_info self1 (ScaleInfo current_duty_cycle output feedrate)
           in (None, self2, logging2, move1))"

definition check_move ::
  "pyfloat \<Rightarrow> PowerCore \<Rightarrow> log_line list \<Rightarrow> Move \<Rightarrow> py_error option \<times> machine" where
  "check_move now self logging move =
     (if \<not> scaling_enabled self then (None, self, logging, move)
      else scale_move now self logging move)"

section \<open>Properties\<close>

lemmas config_defs = get_def getfloat_def getint_def check_bounds_def

lemmas construction_defs =
  PowerCore_init_def PowerCorePWMReader_init_def PWMIn_init_def PID_init_def config_defs

lemmas move_defs =
  check_move_def scale_move_def step_def clamp_def get_current_duty_cycle_def
  get_duty_cycle_def py_round_def round_half_even_def set_speed_def respond_info_def Let_def

subsection \<open>Rounding and clamping\<close>

lemma round_half_even_error: "\<bar>of_int (round_half_even y) - y\<bar> \<le> 1 / 2"
proof -
  have lo: "of_int \<lfloor>y\<rfloor> \<le> y" by simp
  have hi: "y < of_int \<lfloor>y\<rfloor> + 1" by linarith
  show ?thesis
    using lo hi by (auto simp: round_half_even_def Let_def)
qed

lemma py_round_3_error: "\<bar>py_round x 3 - x\<bar> \<le> 1 / 2000"
proof -
  have "\<bar>of_int (round_half_even (x * 1000)) - x * 1000\<bar> \<le> 1 / 2"
    by (rule round_half_even_error)
  then show ?thesis
    by (simp add: py_round_def abs_le_iff field_simps)
qed

lemma py_round_3_grid: "py_round x 3 * 1000 \<in> \<int>"
  by (simp add: py_round_def)

lemma clamp_in_limits:
  "fst limits \<le> snd limits \<Longrightarrow> fst limits \<le> clamp v limits \<and> clamp v limits \<le> snd limits"
  by (simp add: clamp_def)

subsection \<open>The controller step\<close>

lemma step_output_in_limits:
  "fst (output_limits c) \<le> snd (output_limits c) \<Longrightarrow>
   fst (output_limits c) \<le> fst (step c measurement now) \<and>
   fst (step c measurement now) \<le> snd (output_limits c)"
  by (simp add: step_def Let_def clamp_in_limits)

lemma step_keeps_parameters:
  "Kp (snd (step c m now)) = Kp c \<and> Ki (snd (step c m now)) = Ki c \<and>
   Kd (snd (step c m now)) = Kd c \<and> setpoint (snd (step c m now)) = setpoint c \<and>
   output_limits (snd (step c m now)) = output_limits c"
  by (simp add: step_def Let_def)

lemma step_previous_error:
  "previous_error (snd (step c m now)) = Some (setpoint c - m)"
  by (simp add: step_def Let_def)

lemma step_zero_error:
  assumes "Ki c = 0" and "Kd c = 0" and "output_limits c = (0, 1)"
  shows "fst (step c (setpoint c) now) = 0"
  using assms by (simp add: step_def clamp_def Let_def)

subsection \<open>What a call of \<open>scale_move\<close> leaves behind\<close>

lemma scale_move_returns:
  assumes "scale_move now self logging move = (None, self', logging', move')"
  shows "\<not> max_cruise_v2 move < 0"
    and "self' =
      respond_info
        (self\<lparr> pid_controller :=
            snd (step (pid_controller self) (get_current_duty_cycle (pwm_reader self)) now) \<rparr>)
        (ScaleInfo (get_current_duty_cycle (pwm_reader self))
           (fst (step (pid_controller self) (get_current_duty_cycle (pwm_reader self)) now))
           (min_feedrate self
              + fst (step (pid_controller self) (get_current_duty_cycle (pwm_reader self)) now)
                  * (max_feedrate self - min_feedrate self)))"
    and "move' =
      set_speed move
        ((min_feedrate self
            + fst (step (pid_controller self) (get_current_duty_cycle (pwm_reader self)) now)
                * (max_feedrate self - min_feedrate self)) * 60)
        (adjustment_accel self)"
  using assms by (auto simp: scale_move_def Let_def split: prod.splits if_splits)

lemma scale_move_pid:
  "pid_controller (fst (snd (scale_move now self logging move))) =
     snd (step (pid_controller self) (get_current_duty_cycle (pwm_reader self)) now)"
  by (simp add: scale_move_def Let_def respond_info_def split: prod.splits)

lemma scale_move_velocity:
  assumes "scale_move now self logging move = (None, self', logging', move')"
  shows "\<exists>d out f. gcode self' = gcode self @ [ScaleInfo d out f] \<and>
           set_speed_calls move' = set_speed_calls move @ [(f * 60, adjustment_accel self)]"
  using scale_move_returns(2,3) [OF assms] by (simp add: respond_info_def set_speed_def)

subsection \<open>Construction from the configuration\<close>

lemma getfloat_minval:
  "getfloat config option dflt (Some m) maxval aboveval = Inr v \<Longrightarrow> m \<le> dflt \<Longrightarrow> m \<le> v"
  by (auto simp: getfloat_def check_bounds_def split: option.splits cfg_value.splits if_splits)

lemma getfloat_maxval:
  "getfloat config option dflt minval (Some m) aboveval = Inr v \<Longrightarrow> dflt \<le> m \<Longrightarrow> v \<le> m"
  by (auto simp: getfloat_def check_bounds_def split: option.splits cfg_value.splits if_splits)

lemma getfloat_above:
  "getfloat config option dflt minval maxval (Some a) = Inr v \<Longrightarrow> a < dflt \<Longrightarrow> a < v"
  by (auto simp: getfloat_def check_bounds_def split: option.splits cfg_value.splits if_splits)

lemma get_other_option:
  "option \<noteq> k \<Longrightarrow> get (config(k \<mapsto> x)) option = get config option"
  by (simp add: get_def)

lemma getfloat_other_option:
  "option \<noteq> k \<Longrightarrow>
   getfloat (config(k \<mapsto> x)) option dflt minval maxval aboveval =
   getfloat config option dflt minval maxval aboveval"
  by (simp add: getfloat_def)

lemma getint_other_option:
  "option \<noteq> k \<Longrightarrow> getint (config(k \<mapsto> x)) option dflt minval = getint config option dflt minval"
  by (simp add: getint_def)

lemma PowerCorePWMReader_init_feedrates:
  "PowerCorePWMReader_init
     (config(''min_feedrate'' \<mapsto> x, ''max_feedrate'' \<mapsto> y)) estimate =
   PowerCorePWMReader_init config estimate"
  by (simp add: PowerCorePWMReader_init_def get_other_option getfloat_other_option
        getint_other_option cong: sum.case_cong)

lemma PowerCore_init_Inr:
  assumes "PowerCore_init config estimate = Inr self"
  shows "PowerCorePWMReader_init config estimate = Inr (pwm_reader self)"
    and "getfloat config ''target_duty_cycle'' (3 / 4) (Some 0) (Some 1) None
           = Inr (target_duty_cycle self)"
    and "getfloat config ''min_feedrate'' (1 / 10) (Some 0) None None = Inr (min_feedrate self)"
    and "getfloat config ''max_feedrate'' 64 (Some 0) None None = Inr (max_feedrate self)"
    and "getfloat config ''powercore_adjustment_accel'' 500 None None (Some 0)
           = Inr (adjustment_accel self)"
    and "getfloat config ''kp'' 1 None None None = Inr (Kp (pid_controller self))"
    and "getfloat config ''ki'' 0 None None None = Inr (Ki (pid_controller self))"
    and "getfloat config ''kd'' 0 None None None = Inr (Kd (pid_controller self))"
    and "scaling_enabled self"
    and "gcode self = []"
    and "pid_controller self =
           PID_init (Kp (pid_controller self)) (Ki (pid_controller self))
             (Kd (pid_controller self)) (target_duty_cycle self) (0, 1)"
  using assms by (auto simp: PowerCore_init_def PID_init_def split: sum.splits)

lemma PowerCore_init_validated:
  assumes "PowerCore_init config estimate = Inr self"
  shows "0 \<le> target_duty_cycle self \<and> target_duty_cycle self \<le> 1 \<and>
         0 < adjustment_accel self \<and>
         setpoint (pid_controller self) = target_duty_cycle self \<and>
         output_limits (pid_controller self) = (0, 1)"
proof -
  note parts = PowerCore_init_Inr [OF assms]
  have "0 \<le> target_duty_cycle self"
    using getfloat_minval [OF parts(2)] by simp
  moreover have "target_duty_cycle self \<le> 1"
    using getfloat_maxval [OF parts(2)] by simp
  moreover have "0 < adjustment_accel self"
    using getfloat_above [OF parts(5)] by simp
  moreover have "setpoint (pid_controller self) = target_duty_cycle self"
    and "output_limits (pid_controller self) = (0, 1)"
    by (subst parts(11), simp add: PID_init_def)+
  ultimately show ?thesis by simp
qed

lemma getfloat_below_minval:
  "config option = Some (CfgFloat v) \<or> config option = Some (CfgInt i) \<and> v = of_int i \<Longrightarrow>
   v < m \<Longrightarrow>
   getfloat config option dflt (Some m) maxval aboveval = Inl (MustHaveMinimum option m)"
  by (auto simp: getfloat_def check_bounds_def)

lemma PowerCore_init_negative_min_feedrate:
  assumes "config ''min_feedrate'' = Some (CfgFloat v)
             \<or> config ''min_feedrate'' = Some (CfgInt i) \<and> v = of_int i"
    and "v < 0"
  shows "\<exists>e. PowerCore_init config estimate = Inl e"
proof -
  have "getfloat config ''min_feedrate'' (1 / 10) (Some 0) None None
          = Inl (MustHaveMinimum ''min_feedrate'' 0)"
    using assms by (rule getfloat_below_minval)
  then show ?thesis
    by (simp add: PowerCore_init_def split: sum.splits)
qed

lemma PowerCore_init_negative_max_feedrate:
  assumes "config ''max_feedrate'' = Some (CfgFloat v)
             \<or> config ''max_feedrate'' = Some (CfgInt i) \<and> v = of_int i"
    and "v < 0"
  shows "\<exists>e. PowerCore_init config estimate = Inl e"
proof -
  have "getfloat config ''max_feedrate'' 64 (Some 0) None None
          = Inl (MustHaveMinimum ''max_feedrate'' 0)"
    using assms by (rule getfloat_below_minval)
  then show ?thesis
    by (simp add: PowerCore_init_def split: sum.splits)
qed

lemma PowerCore_init_built:
  assumes "PowerCore_init config estimate = Inr self" and "0 \<le> a" and "0 \<le> b"
  shows "0 \<le> min_feedrate self \<and> 0 \<le> max_feedrate self \<and>
         getfloat config ''min_feedrate'' (1 / 10) (Some 0) None None = Inr (min_feedrate self) \<and>
         getfloat config ''max_feedrate'' 64 (Some 0) None None = Inr (max_feedrate self) \<and>
         PowerCore_init (config(''min_feedrate'' \<mapsto> CfgFloat a, ''max_feedrate'' \<mapsto> CfgFloat b))
             estimate
           = Inr (self\<lparr> min_feedrate := a, max_feedrate := b \<rparr>)"
proof -
  note parts = PowerCore_init_Inr [OF assms(1)]
  have lo: "0 \<le> min_feedrate self"
    using getfloat_minval [OF parts(3)] by simp
  have hi: "0 \<le> max_feedrate self"
    using getfloat_minval [OF parts(4)] by simp
  let ?config = "config(''min_feedrate'' \<mapsto> CfgFloat a, ''max_feedrate'' \<mapsto> CfgFloat b)"
  have reader: "PowerCorePWMReader_init ?config estimate = Inr (pwm_reader self)"
    using parts(1) by (simp add: PowerCorePWMReader_init_feedrates)
  have minf: "getfloat ?config ''min_feedrate'' (1 / 10) (Some 0) None None = Inr a"
    using assms(2) by (simp add: getfloat_def check_bounds_def)
  have maxf: "getfloat ?config ''max_feedrate'' 64 (Some 0) None None = Inr b"
    using assms(3) by (simp add: getfloat_def check_bounds_def)
  have others:
    "getfloat ?config ''target_duty_cycle'' (3 / 4) (Some 0) (Some 1) None
       = Inr (target_duty_cycle self)"
    "getfloat ?config ''powercore_adjustment_accel'' 500 None None (Some 0)
       = Inr (adjustment_accel self)"
    "getfloat ?config ''kp'' 1 None None None = Inr (Kp (pid_controller self))"
    "getfloat ?config ''ki'' 0 None None None = Inr (Ki (pid_controller self))"
    "getfloat ?config ''kd'' 0 None None None = Inr (Kd (pid_controller self))"
    using parts(2,5,6,7,8) by (simp_all add: getfloat_other_option)
  have "PowerCore_init ?config estimate =
          Inr \<lparr> pwm_reader = pwm_reader self, gcode = [],
                target_duty_cycle = target_duty_cycle self,
                min_feedrate = a, max_feedrate = b,
                adjustment_accel = adjustment_accel self, scaling_enabled = True,
                pid_controller = PID_init (Kp (pid_controller self)) (Ki (pid_controller self))
                  (Kd (pid_controller self)) (target_duty_cycle self) (0, 1) \<rparr>"
    unfolding PowerCore_init_def by (simp only: reader minf maxf others sum.case)
  also have "\<dots> = Inr (self\<lparr> min_feedrate := a, max_feedrate := b \<rparr>)"
    using parts(9,10,11) by (cases self) simp
  finally show ?thesis
    using lo hi parts(3,4) by simp
qed

text \<open>
  C3, as the code has it: each feedrate bound is checked on its own. A configuration
  that writes a negative value for \<open>min_feedrate\<close> or for \<open>max_feedrate\<close>, as a
  number with or without a fractional part, is fatal: construction ends in an error and
  no governor is built. A governor that was built has \<open>min_feedrate \<ge> 0\<close> and
  \<open>max_feedrate \<ge> 0\<close>, each being what \<open>getfloat\<close> accepted for its option. The two
  are never compared: wherever construction succeeds, it also succeeds with any pair of
  non-negative values written for the two options, \<open>max_feedrate\<close> below
  \<open>min_feedrate\<close> included, and builds the same governor but for these two fields.
\<close>

theorem PowerCore_init_feedrate_bounds:
  "((config ''min_feedrate'' = Some (CfgFloat v)
       \<or> config ''min_feedrate'' = Some (CfgInt i) \<and> v = of_int i
       \<or> config ''max_feedrate'' = Some (CfgFloat v)
       \<or> config ''max_feedrate'' = Some (CfgInt i) \<and> v = of_int i) \<and> v < 0
      \<longrightarrow> (\<exists>e. PowerCore_init config estimate = Inl e)) \<and>
   (PowerCore_init config estimate = Inr self \<and> 0 \<le> a \<and> 0 \<le> b
      \<longrightarrow> 0 \<le> min_feedrate self \<and> 0 \<le> max_feedrate self \<and>
          getfloat config ''min_feedrate'' (1 / 10) (Some 0) None None
            = Inr (min_feedrate self) \<and>
          getfloat config ''max_feedrate'' 64 (Some 0) None None = Inr (max_feedrate self) \<and>
          PowerCore_init
              (config(''min_feedrate'' \<mapsto> CfgFloat a, ''max_feedrate'' \<mapsto> CfgFloat b))
              estimate
            = Inr (self\<lparr> min_feedrate := a, max_feedrate := b \<rparr>))"
proof (intro conjI impI)
  assume neg: "(config ''min_feedrate'' = Some (CfgFloat v)
       \<or> config ''min_feedrate'' = Some (CfgInt i) \<and> v = of_int i
       \<or> config ''max_feedrate'' = Some (CfgFloat v)
       \<or> config ''max_feedrate'' = Some (CfgInt i) \<and> v = of_int i) \<and> v < 0"
  then have "v < 0" by simp
  from neg consider
      "config ''min_feedrate'' = Some (CfgFloat v)
         \<or> config ''min_feedrate'' = Some (CfgInt i) \<and> v = of_int i"
    | "config ''max_feedrate'' = Some (CfgFloat v)
         \<or> config ''max_feedrate'' = Some (CfgInt i) \<and> v = of_int i"
    by blast
  then show "\<exists>e. PowerCore_init config estimate = Inl e"
  proof cases
    case 1
    then show ?thesis
      using \<open>v < 0\<close> by (rule PowerCore_init_negative_min_feedrate)
  next
    case 2
    then show ?thesis
      using \<open>v < 0\<close> by (rule PowerCore_init_negative_max_feedrate)
  qed
next
  assume built: "PowerCore_init config estimate = Inr self \<and> 0 \<le> a \<and> 0 \<le> b"
  then have "0 \<le> min_feedrate self \<and> 0 \<le> max_feedrate self \<and>
         getfloat config ''min_feedrate'' (1 / 10) (Some 0) None None = Inr (min_feedrate self) \<and>
         getfloat config ''max_feedrate'' 64 (Some 0) None None = Inr (max_feedrate self) \<and>
         PowerCore_init (config(''min_feedrate'' \<mapsto> CfgFloat a, ''max_feedrate'' \<mapsto> CfgFloat b))
             estimate
           = Inr (self\<lparr> min_feedrate := a, max_feedrate := b \<rparr>)"
    by (intro PowerCore_init_built) simp_all
  then show "0 \<le> min_feedrate self" and "0 \<le> max_feedrate self"
    and "getfloat config ''min_feedrate'' (1 / 10) (Some 0) None None = Inr (min_feedrate self)"
    and "getfloat config ''max_feedrate'' 64 (Some 0) None None = Inr (max_feedrate self)"
    and "PowerCore_init
              (config(''min_feedrate'' \<mapsto> CfgFloat a, ''max_feedrate'' \<mapsto> CfgFloat b))
              estimate
            = Inr (self\<lparr> min_feedrate := a, max_feedrate := b \<rparr>)"
    by simp_all
qed

text \<open>
  The theorem at three configurations: one that writes \<open>min_feedrate = -1\<close>, one
  that writes \<open>max_feedrate = -3\<close> as a whole number, both fatal, and the default
  configuration (only the pin is written), built and then rewritten with
  \<open>min_feedrate = 8\<close> and \<open>max_feedrate = 2\<close>.
\<close>

theorem PowerCore_init_feedrate_bounds_witness:
  "PowerCore_init [''alrt_pin'' \<mapsto> CfgText ''PA1'', ''min_feedrate'' \<mapsto> CfgFloat (- 1)] (3 / 4)
     = Inl (MustHaveMinimum ''min_feedrate'' 0)
   \<and> PowerCore_init [''alrt_pin'' \<mapsto> CfgText ''PA1'', ''max_feedrate'' \<mapsto> CfgInt (- 3)] (3 / 4)
     = Inl (MustHaveMinimum ''max_feedrate'' 0)
   \<and> PowerCore_init [''alrt_pin'' \<mapsto> CfgText ''PA1''] (3 / 4) =
     Inr \<lparr> pwm_reader = \<lparr> pwm_counter = \<lparr> pin = CfgText ''PA1'',
             report_interval = 1 / 10, pwm_frequency = 100, additional_timeout_ticks = 0,
             duty_cycle = 3 / 4 \<rparr> \<rparr>,
           gcode = [],
           target_duty_cycle = 3 / 4, min_feedrate = 1 / 10, max_feedrate = 64,
           adjustment_accel = 500, scaling_enabled = True,
           pid_controller = \<lparr> Kp = 1, Ki = 0, Kd = 0, setpoint = 3 / 4, output_limits = (0, 1),
             integral = 0, previous_error = None, previous_time = None \<rparr> \<rparr>
   \<and> (0::real) \<le> 8 \<and> (0::real) \<le> 2
   \<and> PowerCore_init [''alrt_pin'' \<mapsto> CfgText ''PA1'', ''min_feedrate'' \<mapsto> CfgFloat 8,
                     ''max_feedrate'' \<mapsto> CfgFloat 2] (3 / 4) =
     Inr \<lparr> pwm_reader = \<lparr> pwm_counter = \<lparr> pin = CfgText ''PA1'',
             report_interval = 1 / 10, pwm_frequency = 100, additional_timeout_ticks = 0,
             duty_cycle = 3 / 4 \<rparr> \<rparr>,
           gcode = [],
           target_duty_cycle = 3 / 4, min_feedrate = 8, max_feedrate = 2,
           adjustment_accel = 500, scaling_enabled = True,
           pid_controller = \<lparr> Kp = 1, Ki = 0, Kd = 0, setpoint = 3 / 4, output_limits = (0, 1),
             integral = 0, previous_error = None, previous_time = None \<rparr> \<rparr>"
proof -
  let ?pin = "[''alrt_pin'' \<mapsto> CfgText ''PA1'']"
  have neg_min: "PowerCore_init (?pin(''min_feedrate'' \<mapsto> CfgFloat (- 1))) (3 / 4)
      = Inl (MustHaveMinimum ''min_feedrate'' 0)"
    by (simp add: construction_defs)
  have neg_max: "PowerCore_init (?pin(''max_feedrate'' \<mapsto> CfgInt (- 3))) (3 / 4)
      = Inl (MustHaveMinimum ''max_feedrate'' 0)"
    by (simp add: construction_defs)
  have init: "PowerCore_init ?pin (3 / 4) =
     Inr \<lparr> pwm_reader = \<lparr> pwm_counter = \<lparr> pin = CfgText ''PA1'',
             report_interval = 1 / 10, pwm_frequency = 100, additional_timeout_ticks = 0,
             duty_cycle = 3 / 4 \<rparr> \<rparr>,
           gcode = [],
           target_duty_cycle = 3 / 4, min_feedrate = 1 / 10, max_feedrate = 64,
           adjustment_accel = 500, scaling_enabled = True,
           pid_controller = \<lparr> Kp = 1, Ki = 0, Kd = 0, setpoint = 3 / 4, output_limits = (0, 1),
             integral = 0, previous_error = None, previous_time = None \<rparr> \<rparr>"
    by (simp add: construction_defs)
  have fatal_min: "\<exists>e. PowerCore_init (?pin(''min_feedrate'' \<mapsto> CfgFloat (- 1))) (3 / 4) = Inl e"
    using PowerCore_init_feedrate_bounds
      [where config = "?pin(''min_feedrate'' \<mapsto> CfgFloat (- 1))" and v = "- 1"
         and estimate = "3 / 4"]
    by simp
  have fatal_max: "\<exists>e. PowerCore_init (?pin(''max_feedrate'' \<mapsto> CfgInt (- 3))) (3 / 4) = Inl e"
    using PowerCore_init_feedrate_bounds
      [where config = "?pin(''max_feedrate'' \<mapsto> CfgInt (- 3))" and v = "- 3" and i = "- 3"
         and estimate = "3 / 4"]
    by simp
  have rebuilt: "PowerCore_init (?pin(''min_feedrate'' \<mapsto> CfgFloat 8, ''max_feedrate'' \<mapsto> CfgFloat 2))
        (3 / 4) =
     Inr \<lparr> pwm_reader = \<lparr> pwm_counter = \<lparr> pin = CfgText ''PA1'',
             report_interval = 1 / 10, pwm_frequency = 100, additional_timeout_ticks = 0,
             duty_cycle = 3 / 4 \<rparr> \<rparr>,
           gcode = [],
           target_duty_cycle = 3 / 4, min_feedrate = 8, max_feedrate = 2,
           adjustment_accel = 500, scaling_enabled = True,
           pid_controller = \<lparr> Kp = 1, Ki = 0, Kd = 0, setpoint = 3 / 4, output_limits = (0, 1),
             integral = 0, previous_error = None, previous_time = None \<rparr> \<rparr>"
    using PowerCore_init_feedrate_bounds
      [where config = ?pin and estimate = "3 / 4" and a = 8 and b = 2
         and self = "\<lparr> pwm_reader = \<lparr> pwm_counter = \<lparr> pin = CfgText ''PA1'',
             report_interval = 1 / 10, pwm_frequency = 100, additional_timeout_ticks = 0,
             duty_cycle = 3 / 4 \<rparr> \<rparr>,
           gcode = [],
           target_duty_cycle = 3 / 4, min_feedrate = 1 / 10, max_feedrate = 64,
           adjustment_accel = 500, scaling_enabled = True,
           pid_controller = \<lparr> Kp = 1, Ki = 0, Kd = 0, setpoint = 3 / 4, output_limits = (0, 1),
             integral = 0, previous_error = None, previous_time = None \<rparr> \<rparr>"]
      init
    by simp
  from fatal_min fatal_max show ?thesis
    using neg_min neg_max init rebuilt by simp
qed

text \<open>
  C3 as stated fails: a configuration with \<open>min_feedrate = 10\<close> and
  \<open>max_feedrate = 5\<close> is accepted, and the governor is built with these bounds.
\<close>

theorem PowerCore_init_accepts_max_below_min:
  "PowerCore_init [''alrt_pin'' \<mapsto> CfgText ''PA1'', ''min_feedrate'' \<mapsto> CfgFloat 10,
                   ''max_feedrate'' \<mapsto> CfgFloat 5] (3 / 4) =
     Inr \<lparr> pwm_reader = \<lparr> pwm_counter = \<lparr> pin = CfgText ''PA1'',
             report_interval = 1 / 10, pwm_frequency = 100, additional_timeout_ticks = 0,
             duty_cycle = 3 / 4 \<rparr> \<rparr>,
           gcode = [],
           target_duty_cycle = 3 / 4, min_feedrate = 10, max_feedrate = 5,
           adjustment_accel = 500, scaling_enabled = True,
           pid_controller = \<lparr> Kp = 1, Ki = 0, Kd = 0, setpoint = 3 / 4, output_limits = (0, 1),
             integral = 0, previous_error = None, previous_time = None \<rparr> \<rparr>
   \<and> (5::real) < 10"
  by (simp add: construction_defs)

subsection \<open>Enabling and disabling\<close>

lemma reset_is_fresh:
  "reset c = PID_init (Kp c) (Ki c) (Kd c) (setpoint c) (output_limits c)"
  by (cases c) (simp add: reset_def PID_init_def)

text \<open>
  C6: \<open>enable_scaling\<close> resets the controller and then sets the flag, and does nothing
  else: the governor after the call is the governor before it with the controller
  replaced by its reset and the flag set. The controller after the call is the one a
  fresh construction with the same gains, setpoint and limits gives: its integral
  accumulator is 0 and it has no previous error or time, while gains, setpoint and
  limits are kept. Every other field of the governor is kept. The same holds after
  disabling and enabling again, whatever the accumulator held before.
\<close>

theorem enable_scaling_clears_controller:
  "enable_scaling self =
     self\<lparr> pid_controller := reset (pid_controller self), scaling_enabled := True \<rparr> \<and>
   pid_controller (enable_scaling self) = reset (pid_controller self) \<and>
   pid_controller (enable_scaling self) =
     PID_init (Kp (pid_controller self)) (Ki (pid_controller self)) (Kd (pid_controller self))
       (setpoint (pid_controller self)) (output_limits (pid_controller self)) \<and>
   integral (pid_controller (enable_scaling self)) = 0 \<and>
   previous_error (pid_controller (enable_scaling self)) = None \<and>
   previous_time (pid_controller (enable_scaling self)) = None \<and>
   Kp (pid_controller (enable_scaling self)) = Kp (pid_controller self) \<and>
   Ki (pid_controller (enable_scaling self)) = Ki (pid_controller self) \<and>
   Kd (pid_controller (enable_scaling self)) = Kd (pid_controller self) \<and>
   setpoint (pid_controller (enable_scaling self)) = setpoint (pid_controller self) \<and>
   output_limits (pid_controller (enable_scaling self)) = output_limits (pid_controller self) \<and>
   scaling_enabled (enable_scaling self) \<and>
   target_duty_cycle (enable_scaling self) = target_duty_cycle self \<and>
   min_feedrate (enable_scaling self) = min_feedrate self \<and>
   max_feedrate (enable_scaling self) = max_feedrate self \<and>
   adjustment_accel (enable_scaling self) = adjustment_accel self \<and>
   pwm_reader (enable_scaling self) = pwm_reader self \<and>
   gcode (enable_scaling self) = gcode self \<and>
   integral (pid_controller (enable_scaling (disable_scaling self))) = 0 \<and>
   enable_scaling (disable_scaling self) = enable_scaling self"
proof -
  have exact: "enable_scaling self =
      self\<lparr> pid_controller := reset (pid_controller self), scaling_enabled := True \<rparr>"
    by (simp add: enable_scaling_def Let_def)
  have fresh: "pid_controller (enable_scaling self) =
      PID_init (Kp (pid_controller self)) (Ki (pid_controller self)) (Kd (pid_controller self))
        (setpoint (pid_controller self)) (output_limits (pid_controller self))"
    by (simp add: exact reset_is_fresh)
  have again: "enable_scaling (disable_scaling self) = enable_scaling self"
    by (simp add: enable_scaling_def disable_scaling_def Let_def)
  have cleared: "integral (pid_controller (enable_scaling (disable_scaling self))) = 0"
    by (simp add: again exact reset_def)
  show ?thesis
    using again cleared by (simp add: exact fresh PID_init_def reset_def)
qed



text \<open>
  C7: \<open>disable_scaling\<close> only clears the flag. The controller (gains, setpoint,
  integral accumulator, previous error and time) and every configuration field are as
  before the call.
\<close>

theorem disable_scaling_frame:
  "\<not> scaling_enabled (disable_scaling self) \<and>
   pid_controller (disable_scaling self) = pid_controller self \<and>
   Kp (pid_controller (disable_scaling self)) = Kp (pid_controller self) \<and>
   Ki (pid_controller (disable_scaling self)) = Ki (pid_controller self) \<and>
   Kd (pid_controller (disable_scaling self)) = Kd (pid_controller self) \<and>
   setpoint (pid_controller (disable_scaling self)) = setpoint (pid_controller self) \<and>
   integral (pid_controller (disable_scaling self)) = integral (pid_controller self) \<and>
   previous_error (pid_controller (disable_scaling self)) = previous_error (pid_controller self) \<and>
   previous_time (pid_controller (disable_scaling self)) = previous_time (pid_controller self) \<and>
   target_duty_cycle (disable_scaling self) = target_duty_cycle self \<and>
   min_feedrate (disable_scaling self) = min_feedrate self \<and>
   max_feedrate (disable_scaling self) = max_feedrate self \<and>
   adjustment_accel (disable_scaling self) = adjustment_accel self \<and>
   pwm_reader (disable_scaling self) = pwm_reader self \<and>
   gcode (disable_scaling self) = gcode self"
  by (simp add: disable_scaling_def)

subsection \<open>Reporting the duty cycle\<close>

text \<open>
  C8: \<open>get_current_duty_cycle\<close> returns the estimate rounded to 3 decimal places: the
  result is a whole number of thousandths and is at most 0.0005 away from the estimate.
  The reporting command responds with exactly this value.
\<close>

theorem get_current_duty_cycle_rounded:
  "get_current_duty_cycle reader * 1000 \<in> \<int> \<and>
   \<bar>get_current_duty_cycle reader - get_duty_cycle (pwm_counter reader)\<bar> \<le> 1 / 2000 \<and>
   gcode (cmd_get_duty_cycle self) =
     gcode self @ [DutyCycleInfo (get_current_duty_cycle (pwm_reader self))]"
  using py_round_3_error [of "get_duty_cycle (pwm_counter reader)"]
  by (simp add: get_current_duty_cycle_def py_round_3_grid
        cmd_get_duty_cycle_def respond_info_def Let_def)

subsection \<open>Moves while scaling is disabled\<close>

text \<open>
  C5: while scaling is disabled, \<open>check_move\<close> returns at once. \<open>set_speed\<close> is not
  called, and the governor with its controller, the log and the move are what they were.
\<close>

theorem check_move_disabled_noop:
  "\<not> scaling_enabled self \<Longrightarrow> check_move now self logging move = (None, self, logging, move)"
  by (simp add: check_move_def)

text \<open>
  The theorem at a disabled governor with a used controller, a log of one line and a
  move whose speed was set once before.
\<close>

theorem check_move_disabled_noop_witness:
  "\<not> scaling_enabled
     \<lparr> pwm_reader = \<lparr> pwm_counter = \<lparr> pin = CfgText ''PA1'',
         report_interval = 1 / 10, pwm_frequency = 100, additional_timeout_ticks = 0,
         duty_cycle = 1 / 4 \<rparr> \<rparr>,
       gcode = [],
       target_duty_cycle = 3 / 4, min_feedrate = 1 / 10, max_feedrate = 64,
       adjustment_accel = 500, scaling_enabled = False,
       pid_controller = \<lparr> Kp = 1, Ki = 0, Kd = 0, setpoint = 3 / 4, output_limits = (0, 1),
         integral = 7 / 2, previous_error = Some (1 / 2), previous_time = Some 11 \<rparr> \<rparr> \<and>
   check_move 12
     \<lparr> pwm_reader = \<lparr> pwm_counter = \<lparr> pin = CfgText ''PA1'',
         report_interval = 1 / 10, pwm_frequency = 100, additional_timeout_ticks = 0,
         duty_cycle = 1 / 4 \<rparr> \<rparr>,
       gcode = [],
       target_duty_cycle = 3 / 4, min_feedrate = 1 / 10, max_feedrate = 64,
       adjustment_accel = 500, scaling_enabled = False,
       pid_controller = \<lparr> Kp = 1, Ki = 0, Kd = 0, setpoint = 3 / 4, output_limits = (0, 1),
         integral = 7 / 2, previous_error = Some (1 / 2), previous_time = Some 11 \<rparr> \<rparr>
     [LogScaleMove] \<lparr> max_cruise_v2 = 4, set_speed_calls = [(6, 500)] \<rparr>
   = (None,
      \<lparr> pwm_reader = \<lparr> pwm_counter = \<lparr> pin = CfgText ''PA1'',
          report_interval = 1 / 10, pwm_frequency = 100, additional_timeout_ticks = 0,
          duty_cycle = 1 / 4 \<rparr> \<rparr>,
        gcode = [],
        target_duty_cycle = 3 / 4, min_feedrate = 1 / 10, max_feedrate = 64,
        adjustment_accel = 500, scaling_enabled = False,
        pid_controller = \<lparr> Kp = 1, Ki = 0, Kd = 0, setpoint = 3 / 4, output_limits = (0, 1),
          integral = 7 / 2, previous_error = Some (1 / 2), previous_time = Some 11 \<rparr> \<rparr>,
      [LogScaleMove], \<lparr> max_cruise_v2 = 4, set_speed_calls = [(6, 500)] \<rparr>)"
proof -
  let ?self = "\<lparr> pwm_reader = \<lparr> pwm_counter = \<lparr> pin = CfgText ''PA1'',
                   report_interval = 1 / 10, pwm_frequency = 100, additional_timeout_ticks = 0,
                   duty_cycle = 1 / 4 \<rparr> \<rparr>,
                 gcode = [],
                 target_duty_cycle = 3 / 4, min_feedrate = 1 / 10, max_feedrate = 64,
                 adjustment_accel = 500, scaling_enabled = False,
                 pid_controller = \<lparr> Kp = 1, Ki = 0, Kd = 0, setpoint = 3 / 4, output_limits = (0, 1),
                   integral = 7 / 2, previous_error = Some (1 / 2), previous_time = Some 11 \<rparr> \<rparr>"
  have disabled: "\<not> scaling_enabled ?self" by simp
  show ?thesis
    using disabled check_move_disabled_noop [OF disabled] by simp
qed

subsection \<open>Moves while scaling is enabled\<close>

text \<open>
  C9: the controller is fed the rounded duty cycle. After an enabled call of
  \<open>check_move\<close>, whether it returns or raises, the controller is the result of one step
  on the estimate rounded to 3 decimal places; the error it stored is the setpoint minus
  that rounded value, which is at most 0.0005 away from the estimate itself.
\<close>

theorem check_move_feeds_rounded_duty_cycle:
  assumes "scaling_enabled self"
    and "check_move now self logging move = (r, self', logging', move')"
  shows "pid_controller self' =
           snd (step (pid_controller self)
                  (py_round (get_duty_cycle (pwm_counter (pwm_reader self))) 3) now) \<and>
         previous_error (pid_controller self') =
           Some (setpoint (pid_controller self)
                   - py_round (get_duty_cycle (pwm_counter (pwm_reader self))) 3) \<and>
         \<bar>py_round (get_duty_cycle (pwm_counter (pwm_reader self))) 3
            - get_duty_cycle (pwm_counter (pwm_reader self))\<bar> \<le> 1 / 2000"
proof -
  from assms have "scale_move now self logging move = (r, self', logging', move')"
    by (simp add: check_move_def)
  then have "pid_controller self' =
      snd (step (pid_controller self) (get_current_duty_cycle (pwm_reader self)) now)"
    using scale_move_pid [of now self logging move] by simp
  then show ?thesis
    using py_round_3_error [of "get_duty_cycle (pwm_counter (pwm_reader self))"]
    by (simp add: get_current_duty_cycle_def step_previous_error)
qed

text \<open>
  The theorem at an estimate of 0.3336, which is not a multiple of 0.001: the controller
  stores the error 0.75 - 0.334 = 0.416, not 0.75 - 0.3336.
\<close>

theorem check_move_feeds_rounded_duty_cycle_witness:
  "check_move 0
     \<lparr> pwm_reader = \<lparr> pwm_counter = \<lparr> pin = CfgText ''PA1'',
         report_interval = 1 / 10, pwm_frequency = 100, additional_timeout_ticks = 0,
         duty_cycle = 417 / 1250 \<rparr> \<rparr>,
       gcode = [],
       target_duty_cycle = 3 / 4, min_feedrate = 1 / 10, max_feedrate = 64,
       adjustment_accel = 500, scaling_enabled = True,
       pid_controller = \<lparr> Kp = 1, Ki = 0, Kd = 0, setpoint = 3 / 4, output_limits = (0, 1),
         integral = 0, previous_error = None, previous_time = None \<rparr> \<rparr>
     [] \<lparr> max_cruise_v2 = 4, set_speed_calls = [] \<rparr>
   = (None,
      \<lparr> pwm_reader = \<lparr> pwm_counter = \<lparr> pin = CfgText ''PA1'',
          report_interval = 1 / 10, pwm_frequency = 100, additional_timeout_ticks = 0,
          duty_cycle = 417 / 1250 \<rparr> \<rparr>,
        gcode = [ScaleInfo (167 / 500) (52 / 125) (33353 / 1250)],
        target_duty_cycle = 3 / 4, min_feedrate = 1 / 10, max_feedrate = 64,
        adjustment_accel = 500, scaling_enabled = True,
        pid_controller = \<lparr> Kp = 1, Ki = 0, Kd = 0, setpoint = 3 / 4, output_limits = (0, 1),
          integral = 0, previous_error = Some (52 / 125), previous_time = Some 0 \<rparr> \<rparr>,
      [LogScaleMove, LogOrigFeedrateSqrt 4, LogNewFeedrate (33353 / 1250),
       LogDutyCycle (167 / 500), LogPidOutput (52 / 125)],
      \<lparr> max_cruise_v2 = 4, set_speed_calls = [(200118 / 125, 500)] \<rparr>) \<and>
   py_round (417 / 1250) 3 = 167 / 500 \<and>
   (3 / 4 - 167 / 500 :: real) = 52 / 125"
proof -
  let ?self = "\<lparr> pwm_reader = \<lparr> pwm_counter = \<lparr> pin = CfgText ''PA1'',
                   report_interval = 1 / 10, pwm_frequency = 100, additional_timeout_ticks = 0,
                   duty_cycle = 417 / 1250 \<rparr> \<rparr>,
                 gcode = [],
                 target_duty_cycle = 3 / 4, min_feedrate = 1 / 10, max_feedrate = 64,
                 adjustment_accel = 500, scaling_enabled = True,
                 pid_controller = \<lparr> Kp = 1, Ki = 0, Kd = 0, setpoint = 3 / 4, output_limits = (0, 1),
                   integral = 0, previous_error = None, previous_time = None \<rparr> \<rparr>"
  let ?self' = "\<lparr> pwm_reader = \<lparr> pwm_counter = \<lparr> pin = CfgText ''PA1'',
                    report_interval = 1 / 10, pwm_frequency = 100, additional_timeout_ticks = 0,
                    duty_cycle = 417 / 1250 \<rparr> \<rparr>,
                  gcode = [ScaleInfo (167 / 500) (52 / 125) (33353 / 1250)],
                  target_duty_cycle = 3 / 4, min_feedrate = 1 / 10, max_feedrate = 64,
                  adjustment_accel = 500, scaling_enabled = True,
                  pid_controller = \<lparr> Kp = 1, Ki = 0, Kd = 0, setpoint = 3 / 4, output_limits = (0, 1),
                    integral = 0, previous_error = Some (52 / 125), previous_time = Some 0 \<rparr> \<rparr>"
  let ?move = "\<lparr> max_cruise_v2 = 4, set_speed_calls = [] \<rparr>"
  have enabled: "scaling_enabled ?self" by simp
  have run: "check_move 0 ?self [] ?move
      = (None, ?self',
         [LogScaleMove, LogOrigFeedrateSqrt 4, LogNewFeedrate (33353 / 1250),
          LogDutyCycle (167 / 500), LogPidOutput (52 / 125)],
         \<lparr> max_cruise_v2 = 4, set_speed_calls = [(200118 / 125, 500)] \<rparr>)"
    by (simp add: move_defs)
  have rounded: "py_round (417 / 1250) 3 = 167 / 500"
    by (simp add: py_round_def round_half_even_def Let_def)
  have stored: "(3 / 4 - 167 / 500 :: real) = 52 / 125" by simp
  from check_move_feeds_rounded_duty_cycle [OF enabled run] show ?thesis
    by (simp only: run rounded stored simp_thms)
qed

text \<open>
  C2, as the code has it: in a governor whose bounds are in order
  (\<open>min_feedrate \<le> max_feedrate\<close>) and whose controller has the output limits
  \<open>(0, 1)\<close> that \<open>__init__\<close> gives it, every enabled call of \<open>check_move\<close> that returns
  reports a controller output within \<open>[0, 1]\<close> and a feedrate
  \<open>min_feedrate + output * (max_feedrate - min_feedrate)\<close> within
  \<open>[min_feedrate, max_feedrate]\<close>. Nothing is said here of the velocity handed to
  \<open>set_speed\<close>.
\<close>

theorem check_move_feedrate_in_band:
  assumes "scaling_enabled self"
    and "min_feedrate self \<le> max_feedrate self"
    and "output_limits (pid_controller self) = (0, 1)"
    and "check_move now self logging move = (None, self', logging', move')"
  shows "\<exists>d out f. gcode self' = gcode self @ [ScaleInfo d out f] \<and>
           0 \<le> out \<and> out \<le> 1 \<and>
           f = min_feedrate self + out * (max_feedrate self - min_feedrate self) \<and>
           min_feedrate self \<le> f \<and> f \<le> max_feedrate self"
proof -
  let ?d = "get_current_duty_cycle (pwm_reader self)"
  let ?out = "fst (step (pid_controller self) ?d now)"
  let ?f = "min_feedrate self + ?out * (max_feedrate self - min_feedrate self)"
  from assms(1,4) have run: "scale_move now self logging move = (None, self', logging', move')"
    by (simp add: check_move_def)
  have resp: "gcode self' = gcode self @ [ScaleInfo ?d ?out ?f]"
    using scale_move_returns(2) [OF run] by (simp add: respond_info_def)
  have out: "0 \<le> ?out" "?out \<le> 1"
    using step_output_in_limits [of "pid_controller self" ?d now] assms(3) by simp_all
  have width: "0 \<le> max_feedrate self - min_feedrate self"
    using assms(2) by simp
  have lo: "min_feedrate self \<le> ?f"
    using out(1) width by simp
  have "?out * (max_feedrate self - min_feedrate self)
          \<le> 1 * (max_feedrate self - min_feedrate self)"
    using out(2) width by (rule mult_right_mono)
  then have hi: "?f \<le> max_feedrate self"
    by simp
  show ?thesis
    using resp out lo hi by blast
qed

text \<open>
  The theorem at the default bounds and an estimate of 0.5: the output is 0.25 and the
  feedrate 0.1 + 0.25 * 63.9 = 16.075.
\<close>

theorem check_move_feedrate_in_band_witness:
  "check_move 0
     \<lparr> pwm_reader = \<lparr> pwm_counter = \<lparr> pin = CfgText ''PA1'',
         report_interval = 1 / 10, pwm_frequency = 100, additional_timeout_ticks = 0,
         duty_cycle = 1 / 2 \<rparr> \<rparr>,
       gcode = [],
       target_duty_cycle = 3 / 4, min_feedrate = 1 / 10, max_feedrate = 64,
       adjustment_accel = 500, scaling_enabled = True,
       pid_controller = \<lparr> Kp = 1, Ki = 0, Kd = 0, setpoint = 3 / 4, output_limits = (0, 1),
         integral = 0, previous_error = None, previous_time = None \<rparr> \<rparr>
     [] \<lparr> max_cruise_v2 = 4, set_speed_calls = [] \<rparr>
   = (None,
      \<lparr> pwm_reader = \<lparr> pwm_counter = \<lparr> pin = CfgText ''PA1'',
          report_interval = 1 / 10, pwm_frequency = 100, additional_timeout_ticks = 0,
          duty_cycle = 1 / 2 \<rparr> \<rparr>,
        gcode = [ScaleInfo (1 / 2) (1 / 4) (643 / 40)],
        target_duty_cycle = 3 / 4, min_feedrate = 1 / 10, max_feedrate = 64,
        adjustment_accel = 500, scaling_enabled = True,
        pid_controller = \<lparr> Kp = 1, Ki = 0, Kd = 0, setpoint = 3 / 4, output_limits = (0, 1),
          integral = 0, previous_error = Some (1 / 4), previous_time = Some 0 \<rparr> \<rparr>,
      [LogScaleMove, LogOrigFeedrateSqrt 4, LogNewFeedrate (643 / 40),
       LogDutyCycle (1 / 2), LogPidOutput (1 / 4)],
      \<lparr> max_cruise_v2 = 4, set_speed_calls = [(1929 / 2, 500)] \<rparr>) \<and>
   (1 / 10 :: real) \<le> 64 \<and>
   (\<exists>d out f. [ScaleInfo (1 / 2) (1 / 4) (643 / 40)] = [ScaleInfo d out f] \<and>
      0 \<le> out \<and> out \<le> 1 \<and> f = 1 / 10 + out * (64 - 1 / 10) \<and>
      1 / 10 \<le> f \<and> f \<le> 64)"
proof -
  let ?self = "\<lparr> pwm_reader = \<lparr> pwm_counter = \<lparr> pin = CfgText ''PA1'',
                   report_interval = 1 / 10, pwm_frequency = 100, additional_timeout_ticks = 0,
                   duty_cycle = 1 / 2 \<rparr> \<rparr>,
                 gcode = [],
                 target_duty_cycle = 3 / 4, min_feedrate = 1 / 10, max_feedrate = 64,
                 adjustment_accel = 500, scaling_enabled = True,
                 pid_controller = \<lparr> Kp = 1, Ki = 0, Kd = 0, setpoint = 3 / 4, output_limits = (0, 1),
                   integral = 0, previous_error = None, previous_time = None \<rparr> \<rparr>"
  let ?self' = "\<lparr> pwm_reader = \<lparr> pwm_counter = \<lparr> pin = CfgText ''PA1'',
                    report_interval = 1 / 10, pwm_frequency = 100, additional_timeout_ticks = 0,
                    duty_cycle = 1 / 2 \<rparr> \<rparr>,
                  gcode = [ScaleInfo (1 / 2) (1 / 4) (643 / 40)],
                  target_duty_cycle = 3 / 4, min_feedrate = 1 / 10, max_feedrate = 64,
                  adjustment_accel = 500, scaling_enabled = True,
                  pid_controller = \<lparr> Kp = 1, Ki = 0, Kd = 0, setpoint = 3 / 4, output_limits = (0, 1),
                    integral = 0, previous_error = Some (1 / 4), previous_time = Some 0 \<rparr> \<rparr>"
  let ?move = "\<lparr> max_cruise_v2 = 4, set_speed_calls = [] \<rparr>"
  have enabled: "scaling_enabled ?self" by simp
  have ordered: "min_feedrate ?self \<le> max_feedrate ?self" by simp
  have limits: "output_limits (pid_controller ?self) = (0, 1)" by simp
  have run: "check_move 0 ?self [] ?move
      = (None, ?self',
         [LogScaleMove, LogOrigFeedrateSqrt 4, LogNewFeedrate (643 / 40),
          LogDutyCycle (1 / 2), LogPidOutput (1 / 4)],
         \<lparr> max_cruise_v2 = 4, set_speed_calls = [(1929 / 2, 500)] \<rparr>)"
    by (simp add: move_defs)
  show ?thesis
    using run check_move_feedrate_in_band [OF enabled ordered limits run] by simp
qed

text \<open>
  C2 as stated fails. The configuration \<open>min_feedrate = 20\<close>, \<open>max_feedrate = 10\<close> is
  accepted; with the estimate on the setpoint the feedrate is 20, above
  \<open>max_feedrate\<close>, and \<open>set_speed\<close> receives 1200, so neither the feedrate nor the
  velocity times 60 lies within \<open>[min_feedrate, max_feedrate]\<close>.
\<close>

theorem check_move_feedrate_outside_band:
  "PowerCore_init [''alrt_pin'' \<mapsto> CfgText ''PA1'', ''min_feedrate'' \<mapsto> CfgFloat 20,
                   ''max_feedrate'' \<mapsto> CfgFloat 10] (3 / 4) =
     Inr \<lparr> pwm_reader = \<lparr> pwm_counter = \<lparr> pin = CfgText ''PA1'',
             report_interval = 1 / 10, pwm_frequency = 100, additional_timeout_ticks = 0,
             duty_cycle = 3 / 4 \<rparr> \<rparr>,
           gcode = [],
           target_duty_cycle = 3 / 4, min_feedrate = 20, max_feedrate = 10,
           adjustment_accel = 500, scaling_enabled = True,
           pid_controller = \<lparr> Kp = 1, Ki = 0, Kd = 0, setpoint = 3 / 4, output_limits = (0, 1),
             integral = 0, previous_error = None, previous_time = None \<rparr> \<rparr> \<and>
   check_move 0
     \<lparr> pwm_reader = \<lparr> pwm_counter = \<lparr> pin = CfgText ''PA1'',
         report_interval = 1 / 10, pwm_frequency = 100, additional_timeout_ticks = 0,
         duty_cycle = 3 / 4 \<rparr> \<rparr>,
       gcode = [],
       target_duty_cycle = 3 / 4, min_feedrate = 20, max_feedrate = 10,
       adjustment_accel = 500, scaling_enabled = True,
       pid_controller = \<lparr> Kp = 1, Ki = 0, Kd = 0, setpoint = 3 / 4, output_limits = (0, 1),
         integral = 0, previous_error = None, previous_time = None \<rparr> \<rparr>
     [] \<lparr> max_cruise_v2 = 4, set_speed_calls = [] \<rparr>
   = (None,
      \<lparr> pwm_reader = \<lparr> pwm_counter = \<lparr> pin = CfgText ''PA1'',
          report_interval = 1 / 10, pwm_frequency = 100, additional_timeout_ticks = 0,
          duty_cycle = 3 / 4 \<rparr> \<rparr>,
        gcode = [ScaleInfo (3 / 4) 0 20],
        target_duty_cycle = 3 / 4, min_feedrate = 20, max_feedrate = 10,
        adjustment_accel = 500, scaling_enabled = True,
        pid_controller = \<lparr> Kp = 1, Ki = 0, Kd = 0, setpoint = 3 / 4, output_limits = (0, 1),
          integral = 0, previous_error = Some 0, previous_time = Some 0 \<rparr> \<rparr>,
      [LogScaleMove, LogOrigFeedrateSqrt 4, LogNewFeedrate 20, LogDutyCycle (3 / 4),
       LogPidOutput 0],
      \<lparr> max_cruise_v2 = 4, set_speed_calls = [(1200, 500)] \<rparr>) \<and>
   \<not> ((20 :: real) \<le> 20 \<and> (20 :: real) \<le> 10) \<and>
   \<not> ((20 :: real) \<le> 1200 * 60 \<and> (1200 :: real) * 60 \<le> 10)"
  by (simp add: move_defs construction_defs)

text \<open>
  C4, as the controller has it: with \<open>Ki = 0\<close> and \<open>Kd = 0\<close>, output limits
  \<open>(0, 1)\<close> and a measurement equal to the setpoint, the raw output is \<open>Kp * 0 = 0\<close>
  and clamping leaves it at 0, the lower limit; an enabled call of \<open>check_move\<close> that
  returns reports the output 0 and the feedrate \<open>min_feedrate\<close>.
\<close>

theorem check_move_zero_error_min_feedrate:
  assumes "scaling_enabled self"
    and "Ki (pid_controller self) = 0" and "Kd (pid_controller self) = 0"
    and "output_limits (pid_controller self) = (0, 1)"
    and "get_current_duty_cycle (pwm_reader self) = setpoint (pid_controller self)"
    and "check_move now self logging move = (None, self', logging', move')"
  shows "fst (step (pid_controller self) (setpoint (pid_controller self)) now) = 0 \<and>
         gcode self' =
           gcode self @ [ScaleInfo (setpoint (pid_controller self)) 0 (min_feedrate self)]"
proof -
  from assms(1,6) have run: "scale_move now self logging move = (None, self', logging', move')"
    by (simp add: check_move_def)
  have zero: "fst (step (pid_controller self) (setpoint (pid_controller self)) now) = 0"
    by (rule step_zero_error [OF assms(2,3,4)])
  then have out:
    "fst (step (pid_controller self) (get_current_duty_cycle (pwm_reader self)) now) = 0"
    using assms(5) by simp
  show ?thesis
    using scale_move_returns(2) [OF run] out zero assms(5) by (simp add: respond_info_def)
qed

text \<open>
  The theorem at the scenario of the claim: target 0.75, \<open>Kp = 1\<close>, \<open>Ki = Kd = 0\<close>,
  estimate 0.75, bounds 0.1 and 64. The output is 0 and the feedrate 0.1.
\<close>

theorem check_move_zero_error_min_feedrate_witness:
  "py_round (3 / 4) 3 = 3 / 4 \<and>
   check_move 5
     \<lparr> pwm_reader = \<lparr> pwm_counter = \<lparr> pin = CfgText ''PA1'',
         report_interval = 1 / 10, pwm_frequency = 100, additional_timeout_ticks = 0,
         duty_cycle = 3 / 4 \<rparr> \<rparr>,
       gcode = [],
       target_duty_cycle = 3 / 4, min_feedrate = 1 / 10, max_feedrate = 64,
       adjustment_accel = 500, scaling_enabled = True,
       pid_controller = \<lparr> Kp = 1, Ki = 0, Kd = 0, setpoint = 3 / 4, output_limits = (0, 1),
         integral = 0, previous_error = None, previous_time = None \<rparr> \<rparr>
     [] \<lparr> max_cruise_v2 = 4, set_speed_calls = [] \<rparr>
   = (None,
      \<lparr> pwm_reader = \<lparr> pwm_counter = \<lparr> pin = CfgText ''PA1'',
          report_interval = 1 / 10, pwm_frequency = 100, additional_timeout_ticks = 0,
          duty_cycle = 3 / 4 \<rparr> \<rparr>,
        gcode = [ScaleInfo (3 / 4) 0 (1 / 10)],
        target_duty_cycle = 3 / 4, min_feedrate = 1 / 10, max_feedrate = 64,
        adjustment_accel = 500, scaling_enabled = True,
        pid_controller = \<lparr> Kp = 1, Ki = 0, Kd = 0, setpoint = 3 / 4, output_limits = (0, 1),
          integral = 0, previous_error = Some 0, previous_time = Some 5 \<rparr> \<rparr>,
      [LogScaleMove, LogOrigFeedrateSqrt 4, LogNewFeedrate (1 / 10), LogDutyCycle (3 / 4),
       LogPidOutput 0],
      \<lparr> max_cruise_v2 = 4, set_speed_calls = [(6, 500)] \<rparr>) \<and>
   fst (step \<lparr> Kp = 1, Ki = 0, Kd = 0, setpoint = 3 / 4, output_limits = (0, 1),
               integral = 0, previous_error = None, previous_time = None \<rparr> (3 / 4) 5) = 0"
proof -
  let ?self = "\<lparr> pwm_reader = \<lparr> pwm_counter = \<lparr> pin = CfgText ''PA1'',
                   report_interval = 1 / 10, pwm_frequency = 100, additional_timeout_ticks = 0,
                   duty_cycle = 3 / 4 \<rparr> \<rparr>,
                 gcode = [],
                 target_duty_cycle = 3 / 4, min_feedrate = 1 / 10, max_feedrate = 64,
                 adjustment_accel = 500, scaling_enabled = True,
                 pid_controller = \<lparr> Kp = 1, Ki = 0, Kd = 0, setpoint = 3 / 4, output_limits = (0, 1),
                   integral = 0, previous_error = None, previous_time = None \<rparr> \<rparr>"
  let ?self' = "\<lparr> pwm_reader = \<lparr> pwm_counter = \<lparr> pin = CfgText ''PA1'',
                    report_interval = 1 / 10, pwm_frequency = 100, additional_timeout_ticks = 0,
                    duty_cycle = 3 / 4 \<rparr> \<rparr>,
                  gcode = [ScaleInfo (3 / 4) 0 (1 / 10)],
                  target_duty_cycle = 3 / 4, min_feedrate = 1 / 10, max_feedrate = 64,
                  adjustment_accel = 500, scaling_enabled = True,
                  pid_controller = \<lparr> Kp = 1, Ki = 0, Kd = 0, setpoint = 3 / 4, output_limits = (0, 1),
                    integral = 0, previous_error = Some 0, previous_time = Some 5 \<rparr> \<rparr>"
  let ?move = "\<lparr> max_cruise_v2 = 4, set_speed_calls = [] \<rparr>"
  have enabled: "scaling_enabled ?self" by simp
  have ki: "Ki (pid_controller ?self) = 0" and kd: "Kd (pid_controller ?self) = 0" by simp_all
  have limits: "output_limits (pid_controller ?self) = (0, 1)" by simp
  have rounded: "py_round (3 / 4) 3 = 3 / 4"
    by (simp add: py_round_def round_half_even_def Let_def)
  have on_target: "get_current_duty_cycle (pwm_reader ?self) = setpoint (pid_controller ?self)"
    using rounded by (simp add: get_current_duty_cycle_def get_duty_cycle_def)
  have run: "check_move 5 ?self [] ?move
      = (None, ?self',
         [LogScaleMove, LogOrigFeedrateSqrt 4, LogNewFeedrate (1 / 10), LogDutyCycle (3 / 4),
          LogPidOutput 0],
         \<lparr> max_cruise_v2 = 4, set_speed_calls = [(6, 500)] \<rparr>)"
    by (simp add: move_defs)
  show ?thesis
    using rounded run
      check_move_zero_error_min_feedrate [OF enabled ki kd limits on_target run]
    by simp
qed

text \<open>
  C4 as stated fails: in its scenario the controller output is 0, not the midpoint 0.5,
  and the feedrate is 0.1, not 32.05.
\<close>

theorem zero_error_output_not_midpoint:
  "fst (step (PID_init 1 0 0 (3 / 4) (0, 1)) (3 / 4) 0) = 0 \<and>
   fst (step (PID_init 1 0 0 (3 / 4) (0, 1)) (3 / 4) 0) \<noteq> 1 / 2 \<and>
   check_move 0
     \<lparr> pwm_reader = \<lparr> pwm_counter = \<lparr> pin = CfgText ''PA1'',
         report_interval = 1 / 10, pwm_frequency = 100, additional_timeout_ticks = 0,
         duty_cycle = 3 / 4 \<rparr> \<rparr>,
       gcode = [],
       target_duty_cycle = 3 / 4, min_feedrate = 1 / 10, max_feedrate = 64,
       adjustment_accel = 500, scaling_enabled = True,
       pid_controller = \<lparr> Kp = 1, Ki = 0, Kd = 0, setpoint = 3 / 4, output_limits = (0, 1),
         integral = 0, previous_error = None, previous_time = None \<rparr> \<rparr>
     [] \<lparr> max_cruise_v2 = 4, set_speed_calls = [] \<rparr>
   = (None,
      \<lparr> pwm_reader = \<lparr> pwm_counter = \<lparr> pin = CfgText ''PA1'',
          report_interval = 1 / 10, pwm_frequency = 100, additional_timeout_ticks = 0,
          duty_cycle = 3 / 4 \<rparr> \<rparr>,
        gcode = [ScaleInfo (3 / 4) 0 (1 / 10)],
        target_duty_cycle = 3 / 4, min_feedrate = 1 / 10, max_feedrate = 64,
        adjustment_accel = 500, scaling_enabled = True,
        pid_controller = \<lparr> Kp = 1, Ki = 0, Kd = 0, setpoint = 3 / 4, output_limits = (0, 1),
          integral = 0, previous_error = Some 0, previous_time = Some 0 \<rparr> \<rparr>,
      [LogScaleMove, LogOrigFeedrateSqrt 4, LogNewFeedrate (1 / 10), LogDutyCycle (3 / 4),
       LogPidOutput 0],
      \<lparr> max_cruise_v2 = 4, set_speed_calls = [(6, 500)] \<rparr>) \<and>
   (1 / 10 :: real) \<noteq> 641 / 20"
  by (simp add: move_defs PID_init_def)

text \<open>
  C1: the comment in \<open>scale_move\<close> says the feedrate is in mm/min and \<open>set_speed\<close>
  expects mm/s, yet the code multiplies by 60. With the default configuration and an
  estimate of 0.25 the controller output is 0.5 and the feedrate 0.1 + 0.5 * 63.9 =
  32.05; \<open>set_speed\<close> receives 32.05 * 60 = 1923 where the claim has 32.05 / 60.
\<close>

theorem scale_move_multiplies_by_60:
  "PowerCore_init [''alrt_pin'' \<mapsto> CfgText ''PA1''] (1 / 4) =
     Inr \<lparr> pwm_reader = \<lparr> pwm_counter = \<lparr> pin = CfgText ''PA1'',
             report_interval = 1 / 10, pwm_frequency = 100, additional_timeout_ticks = 0,
             duty_cycle = 1 / 4 \<rparr> \<rparr>,
           gcode = [],
           target_duty_cycle = 3 / 4, min_feedrate = 1 / 10, max_feedrate = 64,
           adjustment_accel = 500, scaling_enabled = True,
           pid_controller = \<lparr> Kp = 1, Ki = 0, Kd = 0, setpoint = 3 / 4, output_limits = (0, 1),
             integral = 0, previous_error = None, previous_time = None \<rparr> \<rparr> \<and>
   check_move 0
     \<lparr> pwm_reader = \<lparr> pwm_counter = \<lparr> pin = CfgText ''PA1'',
         report_interval = 1 / 10, pwm_frequency = 100, additional_timeout_ticks = 0,
         duty_cycle = 1 / 4 \<rparr> \<rparr>,
       gcode = [],
       target_duty_cycle = 3 / 4, min_feedrate = 1 / 10, max_feedrate = 64,
       adjustment_accel = 500, scaling_enabled = True,
       pid_controller = \<lparr> Kp = 1, Ki = 0, Kd = 0, setpoint = 3 / 4, output_limits = (0, 1),
         integral = 0, previous_error = None, previous_time = None \<rparr> \<rparr>
     [] \<lparr> max_cruise_v2 = 4, set_speed_calls = [] \<rparr>
   = (None,
      \<lparr> pwm_reader = \<lparr> pwm_counter = \<lparr> pin = CfgText ''PA1'',
          report_interval = 1 / 10, pwm_frequency = 100, additional_timeout_ticks = 0,
          duty_cycle = 1 / 4 \<rparr> \<rparr>,
        gcode = [ScaleInfo (1 / 4) (1 / 2) (641 / 20)],
        target_duty_cycle = 3 / 4, min_feedrate = 1 / 10, max_feedrate = 64,
        adjustment_accel = 500, scaling_enabled = True,
        pid_controller = \<lparr> Kp = 1, Ki = 0, Kd = 0, setpoint = 3 / 4, output_limits = (0, 1),
          integral = 0, previous_error = Some (1 / 2), previous_time = Some 0 \<rparr> \<rparr>,
      [LogScaleMove, LogOrigFeedrateSqrt 4, LogNewFeedrate (641 / 20), LogDutyCycle (1 / 4),
       LogPidOutput (1 / 2)],
      \<lparr> max_cruise_v2 = 4, set_speed_calls = [(1923, 500)] \<rparr>) \<and>
   (1923 :: real) = 641 / 20 * 60 \<and> (1923 :: real) \<noteq> 641 / 20 / 60"
  by (simp add: move_defs construction_defs)

end
